theory Spec2Isabelle
  imports Main "HOL-Library.Word"
begin

section \<open>Data model (HMS.cpp, lines 8-26 and 32)\<close>

text \<open>
  The C++ types of the source: \<open>int\<close> is a 32-bit and \<open>long\<close> a 64-bit two's
  complement integer (the LP64 targets the program is written for, see
  \<open>system("clear")\<close>); both are words, compared with the signed orders \<open>\<le>s\<close> and
  \<open><s\<close> and read with \<open>sint\<close>. Arithmetic on words wraps around, which is what
  the machine multiplication and addition of the compiled program do; C++ itself leaves
  signed overflow undefined, so a statement that reads a result as an integer carries
  the condition that the exact result fits into 64 bits.
  \<open>std::string\<close> is a list of characters, a byte of the file is an 8-bit word.
\<close>

type_synonym cint = "32 word"
type_synonym long = "64 word"
type_synonym byte = "8 word"

record RoomData =
  room_no :: cint
  name :: string
  address :: string
  phone :: string
  days :: long
  cost :: long
  rtype :: string
  food_bill :: long

text \<open>The default constructor \<open>RoomData()\<close> (line 20): numbers 0, strings empty.\<close>

definition RoomData_default :: RoomData where
  "RoomData_default =
     \<lparr>room_no = 0, name = [], address = [], phone = [], days = 0, cost = 0,
      rtype = [], food_bill = 0\<rparr>"

text \<open>\<open>std::unordered_map<int, RoomData> rooms_map\<close> (line 32).\<close>

type_synonym rooms_map = "cint \<rightharpoonup> RoomData"

text \<open>
  What an operation reports besides its effect on \<open>rooms_map\<close>. The source prints a
  line; the constructors stand for these lines:
  \<^item> \<open>RoomOccupied\<close>: "Sorry, Room n is already booked." (line 186);
  \<^item> \<open>RoomInvalid\<close>: "Sorry, Room n does not exist (valid range 1-100)." (line 188);
  \<^item> \<open>NotFound\<close>: "Sorry, Room n is vacant or does not exist." and
    "Sorry, Room is vacant." (lines 383, 395, 407, 429, 460, 486);
  \<^item> \<open>InvalidMealChoice\<close>: "Invalid choice for meal." (line 505).
\<close>

datatype error = RoomOccupied | RoomInvalid | NotFound | InvalidMealChoice

section \<open>Room status and booking (lines 167-219 and 320-329)\<close>

text \<open>\<open>check_room_status\<close>: 2 for a number outside 1..100, 1 for a booked room, 0 for a
  vacant one.\<close>

definition check_room_status :: "rooms_map \<Rightarrow> cint \<Rightarrow> cint" where
  "check_room_status rooms r_no =
     (if r_no <s 1 \<or> 100 <s r_no then 2
      else if rooms r_no \<noteq> None then 1
      else 0)"

text \<open>
  \<open>add_room\<close>. The values read from the terminal (room number, name, address, phone,
  number of days) are the arguments; the name, address, phone and days are only read on
  the branch that books. The result is the printed outcome (the record booked, or the
  refusal) and the new \<open>rooms_map\<close>.
\<close>

definition add_room ::
  "cint \<Rightarrow> string \<Rightarrow> string \<Rightarrow> string \<Rightarrow> long \<Rightarrow> rooms_map \<Rightarrow> (error + RoomData) \<times> rooms_map"
where
  "add_room r_no nm addr ph d rooms =
     (let status = check_room_status rooms r_no in
      if status = 1 then (Inl RoomOccupied, rooms)
      else if status = 2 then (Inl RoomInvalid, rooms)
      else
        (let new_room = RoomData_default
               \<lparr>room_no := r_no, name := nm, address := addr, phone := ph, days := d\<rparr>;
             new_room =
               (if 1 \<le>s room_no new_room \<and> room_no new_room \<le>s 50
                  then new_room\<lparr>rtype := ''Deluxe'', cost := days new_room * 10000\<rparr>
                else if 51 \<le>s room_no new_room \<and> room_no new_room \<le>s 80
                  then new_room\<lparr>rtype := ''Executive'', cost := days new_room * 12500\<rparr>
                else if 81 \<le>s room_no new_room \<and> room_no new_room \<le>s 100
                  then new_room\<lparr>rtype := ''Presidential'', cost := days new_room * 15000\<rparr>
                else new_room);
             new_room = new_room\<lparr>food_bill := 0\<rparr>
         in (Inr new_room, rooms(room_no new_room \<mapsto> new_room))))"

section \<open>Editing a booking (lines 375-431)\<close>

text \<open>\<open>modify_name\<close>, \<open>modify_address\<close>, \<open>modify_phone\<close>: \<open>std::getline\<close> into the
  field of the record found; the line read is the second argument.\<close>

definition modify_name :: "cint \<Rightarrow> string \<Rightarrow> rooms_map \<Rightarrow> (error + unit) \<times> rooms_map" where
  "modify_name r_no line rooms =
     (case rooms r_no of
        Some it \<Rightarrow> (Inr (), rooms(r_no \<mapsto> it\<lparr>name := line\<rparr>))
      | None \<Rightarrow> (Inl NotFound, rooms))"

definition modify_address :: "cint \<Rightarrow> string \<Rightarrow> rooms_map \<Rightarrow> (error + unit) \<times> rooms_map" where
  "modify_address r_no line rooms =
     (case rooms r_no of
        Some it \<Rightarrow> (Inr (), rooms(r_no \<mapsto> it\<lparr>address := line\<rparr>))
      | None \<Rightarrow> (Inl NotFound, rooms))"

definition modify_phone :: "cint \<Rightarrow> string \<Rightarrow> rooms_map \<Rightarrow> (error + unit) \<times> rooms_map" where
  "modify_phone r_no line rooms =
     (case rooms r_no of
        Some it \<Rightarrow> (Inr (), rooms(r_no \<mapsto> it\<lparr>phone := line\<rparr>))
      | None \<Rightarrow> (Inl NotFound, rooms))"

text \<open>\<open>modify_days\<close>: the number read replaces \<open>days\<close>, then the cost is recomputed
  from the band of the record's own \<open>room_no\<close> (lines 420-426); outside the three
  bands the cost is left as it was.\<close>

definition modify_days :: "cint \<Rightarrow> long \<Rightarrow> rooms_map \<Rightarrow> (error + unit) \<times> rooms_map" where
  "modify_days r_no d rooms =
     (case rooms r_no of
        Some it \<Rightarrow>
          (let it = it\<lparr>days := d\<rparr>;
               it =
                 (if 1 \<le>s room_no it \<and> room_no it \<le>s 50
                    then it\<lparr>cost := days it * 10000\<rparr>
                  else if 51 \<le>s room_no it \<and> room_no it \<le>s 80
                    then it\<lparr>cost := days it * 12500\<rparr>
                  else if 81 \<le>s room_no it \<and> room_no it \<le>s 100
                    then it\<lparr>cost := days it * 15000\<rparr>
                  else it)
           in (Inr (), rooms(r_no \<mapsto> it)))
      | None \<Rightarrow> (Inl NotFound, rooms))"

section \<open>Check-out (lines 433-464)\<close>

text \<open>
  \<open>delete_customer_record\<close>: for a booked room the bill \<open>cost + food_bill\<close> is
  printed, then one character is read; \<open>y\<close> or \<open>Y\<close> erases the record. The result
  carries the bill printed and whether the record was erased.
\<close>

datatype checkout = CheckedOut | Cancelled

definition delete_customer_record ::
  "cint \<Rightarrow> char \<Rightarrow> rooms_map \<Rightarrow> (error + long \<times> checkout) \<times> rooms_map"
where
  "delete_customer_record r_no confirm_char rooms =
     (case rooms r_no of
        Some room \<Rightarrow>
          (let total_bill = cost room + food_bill room in
           if confirm_char = CHR ''y'' \<or> confirm_char = CHR ''Y''
             then (Inr (total_bill, CheckedOut), rooms(r_no := None))
             else (Inr (total_bill, Cancelled), rooms))
      | None \<Rightarrow> (Inl NotFound, rooms))"

section \<open>Restaurant orders (lines 466-532)\<close>

text \<open>The three helpers: \<open>long added_cost = cost_per_person * num_people\<close> converts
  the \<open>int\<close> to \<open>long\<close> (sign extension, \<open>scast\<close>) and adds to the bill.\<close>

definition calculateBreakfastCost :: "RoomData \<Rightarrow> cint \<Rightarrow> RoomData" where
  "calculateBreakfastCost room num_people =
     (let cost_per_person = (500 :: long);
          added_cost = cost_per_person * scast num_people
      in room\<lparr>food_bill := food_bill room + added_cost\<rparr>)"

definition calculateLunchCost :: "RoomData \<Rightarrow> cint \<Rightarrow> RoomData" where
  "calculateLunchCost room num_people =
     (let cost_per_person = (1000 :: long);
          added_cost = cost_per_person * scast num_people
      in room\<lparr>food_bill := food_bill room + added_cost\<rparr>)"

definition calculateDinnerCost :: "RoomData \<Rightarrow> cint \<Rightarrow> RoomData" where
  "calculateDinnerCost room num_people =
     (let cost_per_person = (1200 :: long);
          added_cost = cost_per_person * scast num_people
      in room\<lparr>food_bill := food_bill room + added_cost\<rparr>)"

text \<open>\<open>order_food\<close>: the meal choice is read first, then the room number; for a booked
  room the number of people is read, and the switch on the meal choice follows.\<close>

definition order_food :: "cint \<Rightarrow> cint \<Rightarrow> cint \<Rightarrow> rooms_map \<Rightarrow> (error + unit) \<times> rooms_map" where
  "order_food meal_choice r_no num_people rooms =
     (case rooms r_no of
        None \<Rightarrow> (Inl NotFound, rooms)
      | Some it \<Rightarrow>
          (if meal_choice = 1
             then (Inr (), rooms(r_no \<mapsto> calculateBreakfastCost it num_people))
           else if meal_choice = 2
             then (Inr (), rooms(r_no \<mapsto> calculateLunchCost it num_people))
           else if meal_choice = 3
             then (Inr (), rooms(r_no \<mapsto> calculateDinnerCost it num_people))
           else (Inl InvalidMealChoice, rooms)))"

section \<open>The session: one menu action after another (lines 120-164, 289-316, 331-373)\<close>

text \<open>
  \<open>main_menu\<close> runs one operation per choice until the choice is 6. An action is the
  choice together with the values the operation reads: choice 1 is \<open>add_room\<close>, choice 4
  then 1 leads through \<open>modify_customer_info\<close> to one of the four \<open>modify_\<close> functions,
  choice 4 then 2 is \<open>delete_customer_record\<close>, choice 5 is \<open>order_food\<close>. Choices 2
  and 3 only print. \<open>perform\<close> keeps the effect of an action on \<open>rooms_map\<close>.
\<close>

datatype action =
    Book cint string string string long
  | ModifyName cint string
  | ModifyAddress cint string
  | ModifyPhone cint string
  | ModifyDays cint long
  | CheckOut cint char
  | OrderFood cint cint cint

fun perform :: "action \<Rightarrow> rooms_map \<Rightarrow> rooms_map" where
  "perform (Book r_no nm addr ph d) rooms = snd (add_room r_no nm addr ph d rooms)"
| "perform (ModifyName r_no line) rooms = snd (modify_name r_no line rooms)"
| "perform (ModifyAddress r_no line) rooms = snd (modify_address r_no line rooms)"
| "perform (ModifyPhone r_no line) rooms = snd (modify_phone r_no line rooms)"
| "perform (ModifyDays r_no d) rooms = snd (modify_days r_no d rooms)"
| "perform (CheckOut r_no confirm_char) rooms = snd (delete_customer_record r_no confirm_char rooms)"
| "perform (OrderFood meal_choice r_no num_people) rooms =
     snd (order_food meal_choice r_no num_people rooms)"

section \<open>Persistence (lines 67-75 and 82-118)\<close>

text \<open>
  \<open>save_data\<close> writes, for every pair of \<open>rooms_map\<close>, the \<open>sizeof(RoomData)\<close> bytes of
  the object itself; \<open>load_data\<close> reads blocks of \<open>sizeof(RoomData)\<close> bytes into a
  \<open>RoomData\<close> object for as long as a whole block can be read and stores the object
  under its \<open>room_no\<close>. Both the size and the meaning of the bytes of an object are
  fixed by the compiler and its library, not by the program, so they are parameters:
  \<open>sz\<close> is \<open>sizeof(RoomData)\<close>, \<open>enc\<close> gives the bytes of an object and \<open>dec\<close> the
  object that a block of \<open>sz\<close> bytes is read as. The file \<open>Record.DAT\<close> is
  \<open>None\<close> when it cannot be opened and its bytes otherwise. \<open>sizeof\<close> is never 0;
  the loop of the model stops there.

  The model is generous to the program. \<open>fin.read\<close> writes the bytes of the file over
  the \<open>std::string\<close> members of \<open>temp_room\<close> (lines 90-91), and the assignment of
  line 99 then copies strings through whatever pointers these bytes hold: C++ gives this
  no defined behaviour, and the program may stop there. \<open>load_loop\<close> lets every block
  be read as some record by a function \<open>dec\<close> of the bytes alone and always returns a
  map. It therefore bounds from above what loading can give back: a record that no
  \<open>dec\<close> can produce is not loaded by the program either. It does not show that the
  program returns from \<open>load_data\<close>, and nothing below states that it does for a
  file that holds bytes.
\<close>

fun load_loop :: "nat \<Rightarrow> (byte list \<Rightarrow> RoomData) \<Rightarrow> byte list \<Rightarrow> rooms_map \<Rightarrow> rooms_map" where
  "load_loop sz dec fin rooms =
     (if sz = 0 \<or> length fin < sz then rooms
      else
        (let temp_room = dec (take sz fin)
         in load_loop sz dec (drop sz fin) (rooms(room_no temp_room \<mapsto> temp_room))))"

declare load_loop.simps [simp del]

definition load_data ::
  "nat \<Rightarrow> (byte list \<Rightarrow> RoomData) \<Rightarrow> byte list option \<Rightarrow> rooms_map \<Rightarrow> rooms_map"
where
  "load_data sz dec file rooms =
     (case file of
        None \<Rightarrow> rooms
      | Some fin \<Rightarrow> load_loop sz dec fin rooms)"

text \<open>The constructor (lines 68-70): \<open>load_data\<close> on the map as it is constructed, empty.\<close>

definition HotelManager :: "nat \<Rightarrow> (byte list \<Rightarrow> RoomData) \<Rightarrow> byte list option \<Rightarrow> rooms_map" where
  "HotelManager sz dec file = load_data sz dec file Map.empty"

text \<open>
  \<open>save_data\<close>: \<open>writable\<close> says whether the file can be opened for writing (if not,
  the file stays as it is), \<open>order\<close> is the order in which the loop meets the keys of
  the unordered map. The file is truncated, then one object is written per pair.
\<close>

definition save_data ::
  "(RoomData \<Rightarrow> byte list) \<Rightarrow> cint list \<Rightarrow> bool \<Rightarrow> rooms_map \<Rightarrow> byte list option \<Rightarrow> byte list option"
where
  "save_data enc order writable rooms file =
     (if \<not> writable then file
      else Some (concat (map (\<lambda>k. case rooms k of None \<Rightarrow> [] | Some r \<Rightarrow> enc r) order)))"

section \<open>The pricing tables as the specification words them\<close>

text \<open>
  Section 4.2 of the specification: the per-day rate of a room number is 10000 for 1..50,
  12500 for 51..80 and 15000 for 81..100, and is not defined elsewhere; a meal costs 500
  (breakfast), 1000 (lunch) or 1200 (dinner) per person. \<open>menu_choice\<close> is the number of
  the meal in the restaurant menu printed by \<open>order_food\<close> (lines 472-474).
\<close>

definition spec_rate :: "cint \<Rightarrow> long option" where
  "spec_rate n =
     (if 1 \<le> sint n \<and> sint n \<le> 50 then Some 10000
      else if 51 \<le> sint n \<and> sint n \<le> 80 then Some 12500
      else if 81 \<le> sint n \<and> sint n \<le> 100 then Some 15000
      else None)"

datatype meal = Breakfast | Lunch | Dinner

fun spec_meal_rate :: "meal \<Rightarrow> long" where
  "spec_meal_rate Breakfast = 500"
| "spec_meal_rate Lunch = 1000"
| "spec_meal_rate Dinner = 1200"

fun menu_choice :: "meal \<Rightarrow> cint" where
  "menu_choice Breakfast = 1"
| "menu_choice Lunch = 2"
| "menu_choice Dinner = 3"

text \<open>A sequence of meal orders for one room, each a meal and a number of people.\<close>

fun order_meals :: "cint \<Rightarrow> (meal \<times> cint) list \<Rightarrow> rooms_map \<Rightarrow> rooms_map" where
  "order_meals r_no [] rooms = rooms"
| "order_meals r_no ((m, num_people) # orders) rooms =
     order_meals r_no orders (perform (OrderFood (menu_choice m) r_no num_people) rooms)"

section \<open>Notions used in the statements\<close>

text \<open>The record that \<open>add_room\<close> builds for a vacant room with a number in 1..100, in
  closed form (lemma \<open>add_room_vacant\<close> below).\<close>

definition booked :: "cint \<Rightarrow> string \<Rightarrow> string \<Rightarrow> string \<Rightarrow> long \<Rightarrow> RoomData" where
  "booked r_no nm addr ph d =
     \<lparr>room_no = r_no, name = nm, address = addr, phone = ph, days = d,
      cost = d * (if sint r_no \<le> 50 then 10000 else if sint r_no \<le> 80 then 12500 else 15000),
      rtype = (if sint r_no \<le> 50 then ''Deluxe'' else if sint r_no \<le> 80 then ''Executive''
               else ''Presidential''),
      food_bill = 0\<rparr>"

text \<open>The invariant of a record stored under key \<open>k\<close>: it carries the key as its room
  number, the number lies in a band, and the cost is the days times the rate of the band.\<close>

definition booking_ok :: "cint \<Rightarrow> RoomData \<Rightarrow> bool" where
  "booking_ok k r =
     (room_no r = k \<and> (case spec_rate k of None \<Rightarrow> False | Some rt \<Rightarrow> cost r = days r * rt))"

section \<open>Booking and room status\<close>

lemma status_invalid:
  "sint r_no < 1 \<or> 100 < sint r_no \<Longrightarrow> check_room_status rooms r_no = 2"
  by (auto simp: check_room_status_def word_sless_alt)

lemma status_booked:
  "1 \<le> sint r_no \<Longrightarrow> sint r_no \<le> 100 \<Longrightarrow> rooms r_no = Some r \<Longrightarrow>
   check_room_status rooms r_no = 1"
  by (auto simp: check_room_status_def word_sless_alt)

lemma status_vacant:
  "1 \<le> sint r_no \<Longrightarrow> sint r_no \<le> 100 \<Longrightarrow> rooms r_no = None \<Longrightarrow>
   check_room_status rooms r_no = 0"
  by (auto simp: check_room_status_def word_sless_alt)

lemma add_room_invalid:
  "sint r_no < 1 \<or> 100 < sint r_no \<Longrightarrow>
   add_room r_no nm addr ph d rooms = (Inl RoomInvalid, rooms)"
  by (simp add: add_room_def status_invalid)

lemma add_room_booked:
  "1 \<le> sint r_no \<Longrightarrow> sint r_no \<le> 100 \<Longrightarrow> rooms r_no = Some r \<Longrightarrow>
   add_room r_no nm addr ph d rooms = (Inl RoomOccupied, rooms)"
  by (simp add: add_room_def status_booked)

lemma add_room_vacant:
  assumes "1 \<le> sint r_no" "sint r_no \<le> 100" "rooms r_no = None"
  shows "add_room r_no nm addr ph d rooms =
     (Inr (booked r_no nm addr ph d), rooms(r_no \<mapsto> booked r_no nm addr ph d))"
  using assms
  by (auto simp: add_room_def status_vacant RoomData_default_def word_sle_eq Let_def booked_def)

lemma add_room_cases:
  "add_room r_no nm addr ph d rooms = (Inl RoomInvalid, rooms) \<or>
   add_room r_no nm addr ph d rooms = (Inl RoomOccupied, rooms) \<or>
   (1 \<le> sint r_no \<and> sint r_no \<le> 100 \<and> rooms r_no = None \<and>
    add_room r_no nm addr ph d rooms =
     (Inr (booked r_no nm addr ph d), rooms(r_no \<mapsto> booked r_no nm addr ph d)))"
proof (cases "sint r_no < 1 \<or> 100 < sint r_no")
  case True
  then show ?thesis by (simp add: add_room_invalid)
next
  case False
  then have rng: "1 \<le> sint r_no" "sint r_no \<le> 100" by auto
  show ?thesis
  proof (cases "rooms r_no")
    case None
    with rng show ?thesis by (simp add: add_room_vacant)
  next
    case (Some r)
    with rng show ?thesis by (simp add: add_room_booked)
  qed
qed

section \<open>Rates and the cost of the stay\<close>

lemma spec_rate_range:
  "1 \<le> sint n \<Longrightarrow> sint n \<le> 100 \<Longrightarrow>
   spec_rate n = Some (if sint n \<le> 50 then 10000 else if sint n \<le> 80 then 12500 else 15000)"
  by (simp add: spec_rate_def)

lemma booked_rate:
  "1 \<le> sint r_no \<Longrightarrow> sint r_no \<le> 100 \<Longrightarrow>
   \<exists>rt. spec_rate r_no = Some rt \<and> cost (booked r_no nm addr ph d) = d * rt"
  by (simp add: spec_rate_range booked_def)

lemma modify_days_booked:
  assumes "rooms r_no = Some it"
  shows "modify_days r_no d rooms =
     (Inr (), rooms(r_no \<mapsto> it\<lparr>days := d,
        cost := (if 1 \<le> sint (room_no it) \<and> sint (room_no it) \<le> 50 then d * 10000
                 else if 51 \<le> sint (room_no it) \<and> sint (room_no it) \<le> 80 then d * 12500
                 else if 81 \<le> sint (room_no it) \<and> sint (room_no it) \<le> 100 then d * 15000
                 else cost it)\<rparr>))"
  using assms by (simp add: modify_days_def Let_def word_sle_eq)

lemma modify_days_rate:
  assumes "rooms r_no = Some it" "spec_rate (room_no it) = Some rt"
  shows "modify_days r_no d rooms = (Inr (), rooms(r_no \<mapsto> it\<lparr>days := d, cost := d * rt\<rparr>))"
proof -
  from assms(2) have "(if 1 \<le> sint (room_no it) \<and> sint (room_no it) \<le> 50 then d * 10000
                 else if 51 \<le> sint (room_no it) \<and> sint (room_no it) \<le> 80 then d * 12500
                 else if 81 \<le> sint (room_no it) \<and> sint (room_no it) \<le> 100 then d * 15000
                 else cost it) = d * rt"
    by (auto simp: spec_rate_def split: if_splits)
  with modify_days_booked [of rooms r_no it d] assms(1) show ?thesis by simp
qed

lemma sint_times_fits:
  fixes d :: long
  assumes "- (2 ^ 63) \<le> sint d * sint k" "sint d * sint k < 2 ^ 63"
  shows "sint (d * k) = sint d * sint k"
  using assms by (simp add: sint_word_ariths signed_take_bit_int_eq_self)

lemma sint_plus_fits:
  fixes a :: long
  assumes "- (2 ^ 63) \<le> sint a + sint b" "sint a + sint b < 2 ^ 63"
  shows "sint (a + b) = sint a + sint b"
  using assms by (simp add: sint_word_ariths signed_take_bit_int_eq_self)

section \<open>The invariant of the bookings of a session\<close>

lemma booking_ok_booked:
  "1 \<le> sint r_no \<Longrightarrow> sint r_no \<le> 100 \<Longrightarrow> booking_ok r_no (booked r_no nm addr ph d)"
  by (simp add: booking_ok_def spec_rate_range booked_def)

lemma booking_ok_fields [simp]:
  "booking_ok k (r\<lparr>name := x\<rparr>) = booking_ok k r"
  "booking_ok k (r\<lparr>address := x\<rparr>) = booking_ok k r"
  "booking_ok k (r\<lparr>phone := x\<rparr>) = booking_ok k r"
  "booking_ok k (r\<lparr>food_bill := y\<rparr>) = booking_ok k r"
  by (simp_all add: booking_ok_def split: option.splits)

lemma perform_keeps_ok:
  assumes inv: "\<forall>k r. rooms k = Some r \<longrightarrow> booking_ok k r"
    and after: "perform a rooms k = Some r"
  shows "booking_ok k r"
proof (cases a)
  case (Book r_no nm addr ph d)
  from add_room_cases [of r_no nm addr ph d rooms] after inv show ?thesis
    unfolding Book by (auto simp: booking_ok_booked split: if_splits)
next
  case (ModifyName r_no line)
  with after inv show ?thesis
    by (auto simp: modify_name_def split: option.splits if_splits)
next
  case (ModifyAddress r_no line)
  with after inv show ?thesis
    by (auto simp: modify_address_def split: option.splits if_splits)
next
  case (ModifyPhone r_no line)
  with after inv show ?thesis
    by (auto simp: modify_phone_def split: option.splits if_splits)
next
  case (ModifyDays r_no d)
  show ?thesis
  proof (cases "rooms r_no")
    case None
    with after inv ModifyDays show ?thesis by (simp add: modify_days_def)
  next
    case (Some it)
    with inv have ok: "booking_ok r_no it" by simp
    then obtain rt where rt: "spec_rate r_no = Some rt" "room_no it = r_no"
      by (auto simp: booking_ok_def split: option.splits)
    then have "spec_rate (room_no it) = Some rt" by simp
    from modify_days_rate [of rooms r_no it rt d, OF Some this] after inv ModifyDays rt
    show ?thesis
      by (auto simp: booking_ok_def split: if_splits)
  qed
next
  case (CheckOut r_no c)
  with after inv show ?thesis
    by (auto simp: delete_customer_record_def Let_def split: option.splits if_splits)
next
  case (OrderFood m r_no n)
  with after inv show ?thesis
    by (auto simp: order_food_def calculateBreakfastCost_def
        calculateLunchCost_def calculateDinnerCost_def split: option.splits if_splits)
qed

lemma reachable_ok:
  "fold perform acts Map.empty k = Some r \<Longrightarrow> booking_ok k r"
proof (induction acts arbitrary: k r rule: rev_induct)
  case Nil
  then show ?case by simp
next
  case (snoc a acts)
  from snoc.prems have "perform a (fold perform acts Map.empty) k = Some r" by simp
  moreover from snoc.IH
  have "\<forall>k r. fold perform acts Map.empty k = Some r \<longrightarrow> booking_ok k r" by blast
  ultimately show ?case by (rule perform_keeps_ok [rotated])
qed

section \<open>The room bands\<close>

text \<open>
  Claim C4. For every room number in 1..100 the booking falls into exactly one band:
  up to 50 the room is Deluxe at 10000 a day, from 51 to 80 Executive at 12500, from 81
  on Presidential at 15000 (the three thresholds leave no gap and no overlap). The
  numbers 0 and 101 have no band: \<open>add_room\<close> refuses them before its band test, and
  the band test of \<open>modify_days\<close> leaves the cost of a record with such a number alone.
\<close>

theorem room_bands_partition:
  "(1 \<le> sint r_no \<and> sint r_no \<le> 100 \<and> rooms r_no = None \<longrightarrow>
      (\<exists>r. fst (add_room r_no nm addr ph d rooms) = Inr r \<and>
           (rtype r, cost r) =
             (if sint r_no \<le> 50 then (''Deluxe'', d * 10000)
              else if sint r_no \<le> 80 then (''Executive'', d * 12500)
              else (''Presidential'', d * 15000)))) \<and>
   add_room 0 nm addr ph d rooms = (Inl RoomInvalid, rooms) \<and>
   add_room 101 nm addr ph d rooms = (Inl RoomInvalid, rooms) \<and>
   (rooms k = Some it \<and> (room_no it = 0 \<or> room_no it = 101) \<longrightarrow>
      (\<exists>it'. snd (modify_days k d rooms) k = Some it' \<and> cost it' = cost it))"
proof (intro conjI impI)
  assume "1 \<le> sint r_no \<and> sint r_no \<le> 100 \<and> rooms r_no = None"
  then show "\<exists>r. fst (add_room r_no nm addr ph d rooms) = Inr r \<and>
           (rtype r, cost r) =
             (if sint r_no \<le> 50 then (''Deluxe'', d * 10000)
              else if sint r_no \<le> 80 then (''Executive'', d * 12500)
              else (''Presidential'', d * 15000))"
    by (simp add: add_room_vacant booked_def)
next
  show "add_room 0 nm addr ph d rooms = (Inl RoomInvalid, rooms)"
    by (rule add_room_invalid) simp
next
  show "add_room 101 nm addr ph d rooms = (Inl RoomInvalid, rooms)"
    by (rule add_room_invalid) simp
next
  assume "rooms k = Some it \<and> (room_no it = 0 \<or> room_no it = 101)"
  then show "\<exists>it'. snd (modify_days k d rooms) k = Some it' \<and> cost it' = cost it"
    by (auto simp: modify_days_booked)
qed

text \<open>The band borders 50, 51, 80, 81 and 100, and a record numbered 0 under key 5.\<close>

theorem room_bands_partition_witness:
  "(\<exists>r. fst (add_room 50 ''A'' ''B'' ''C'' 2 Map.empty) = Inr r \<and>
        (rtype r, cost r) = (''Deluxe'', 20000)) \<and>
   (\<exists>r. fst (add_room 51 ''A'' ''B'' ''C'' 2 Map.empty) = Inr r \<and>
        (rtype r, cost r) = (''Executive'', 25000)) \<and>
   (\<exists>r. fst (add_room 80 ''A'' ''B'' ''C'' 2 Map.empty) = Inr r \<and>
        (rtype r, cost r) = (''Executive'', 25000)) \<and>
   (\<exists>r. fst (add_room 81 ''A'' ''B'' ''C'' 2 Map.empty) = Inr r \<and>
        (rtype r, cost r) = (''Presidential'', 30000)) \<and>
   (\<exists>r. fst (add_room 100 ''A'' ''B'' ''C'' 2 Map.empty) = Inr r \<and>
        (rtype r, cost r) = (''Presidential'', 30000)) \<and>
   (\<exists>it'. snd (modify_days 5 7 [5 \<mapsto> RoomData_default\<lparr>cost := 9\<rparr>]) 5 = Some it' \<and>
        cost it' = 9)"
  using room_bands_partition [of 50 Map.empty "''A''" "''B''" "''C''" 2]
    room_bands_partition [of 51 Map.empty "''A''" "''B''" "''C''" 2]
    room_bands_partition [of 80 Map.empty "''A''" "''B''" "''C''" 2]
    room_bands_partition [of 81 Map.empty "''A''" "''B''" "''C''" 2]
    room_bands_partition [of 100 Map.empty "''A''" "''B''" "''C''" 2]
    room_bands_partition [of 1 "[5 \<mapsto> RoomData_default\<lparr>cost := 9\<rparr>]" "''A''" "''B''" "''C''" 7 5
      "RoomData_default\<lparr>cost := 9\<rparr>"]
  by (simp add: RoomData_default_def)

section \<open>The cost of the stay\<close>

text \<open>
  Claim C3. The record that \<open>add_room\<close> books has \<open>cost = days * rate\<close>, with the rate
  of the band of its room number. Every record of a session (any sequence of menu
  actions from the empty map) has a room number in a band and satisfies the same
  equation, and \<open>modify_days\<close> on it stores the new days and again \<open>cost = days * rate\<close>
  for the same room number. The product is the \<open>long\<close> product of the program.
\<close>

theorem room_cost_is_days_times_rate:
  "(fst (add_room r_no nm addr ph d rooms) = Inr r \<longrightarrow>
      days r = d \<and> (\<exists>rt. spec_rate (room_no r) = Some rt \<and> cost r = days r * rt)) \<and>
   (fold perform acts Map.empty k = Some it \<longrightarrow>
      (\<exists>rt. spec_rate (room_no it) = Some rt \<and> cost it = days it * rt \<and>
        (\<exists>it'. modify_days k d' (fold perform acts Map.empty) =
                 (Inr (), (fold perform acts Map.empty)(k \<mapsto> it')) \<and>
               room_no it' = room_no it \<and> days it' = d' \<and> cost it' = days it' * rt)))"
proof (intro conjI impI)
  assume a: "fst (add_room r_no nm addr ph d rooms) = Inr r"
  with add_room_cases [of r_no nm addr ph d rooms]
  have rng: "1 \<le> sint r_no" "sint r_no \<le> 100" and r: "r = booked r_no nm addr ph d"
    by auto
  from rng show "days r = d" unfolding r by (simp add: booked_def)
  from booked_rate [OF rng, of nm addr ph d]
  show "\<exists>rt. spec_rate (room_no r) = Some rt \<and> cost r = days r * rt"
    unfolding r by (simp add: booked_def)
next
  assume a: "fold perform acts Map.empty k = Some it"
  from reachable_ok [OF a] obtain rt where
    rt: "spec_rate (room_no it) = Some rt" "cost it = days it * rt"
    by (auto simp: booking_ok_def split: option.splits)
  from modify_days_rate [of "fold perform acts Map.empty" k it rt d', OF a rt(1)] rt
  show "\<exists>rt. spec_rate (room_no it) = Some rt \<and> cost it = days it * rt \<and>
        (\<exists>it'. modify_days k d' (fold perform acts Map.empty) =
                 (Inr (), (fold perform acts Map.empty)(k \<mapsto> it')) \<and>
               room_no it' = room_no it \<and> days it' = d' \<and> cost it' = days it' * rt)"
    by auto
qed

text \<open>Room 55 booked for 2 days costs 25000; changed to 5 days it costs 62500.\<close>

theorem room_cost_is_days_times_rate_witness:
  "(\<exists>r. fst (add_room 55 ''A'' ''B'' ''C'' 2 Map.empty) = Inr r \<and> days r = 2 \<and>
        cost r = 25000) \<and>
   (\<exists>it'. modify_days 55 5 (fold perform [Book 55 ''A'' ''B'' ''C'' 2] Map.empty) =
       (Inr (), (fold perform [Book 55 ''A'' ''B'' ''C'' 2] Map.empty)(55 \<mapsto> it')) \<and>
       days it' = 5 \<and> cost it' = 62500 \<and> room_no it' = 55)"
proof -
  let ?r = "\<lparr>room_no = 55, name = ''A'', address = ''B'', phone = ''C'', days = 2,
        cost = 25000, rtype = ''Executive'', food_bill = 0\<rparr>"
  have a: "fst (add_room 55 ''A'' ''B'' ''C'' 2 Map.empty) = Inr ?r"
    by (simp add: add_room_def check_room_status_def RoomData_default_def Let_def
      word_sless_alt word_sle_eq)
  have b: "fold perform [Book 55 ''A'' ''B'' ''C'' 2] Map.empty 55 = Some ?r"
    by (simp add: add_room_def check_room_status_def RoomData_default_def Let_def
      word_sless_alt word_sle_eq)
  have rt: "spec_rate 55 = Some 12500" by (simp add: spec_rate_def)
  from room_cost_is_days_times_rate
    [of 55 "''A''" "''B''" "''C''" 2 Map.empty ?r "[Book 55 ''A'' ''B'' ''C'' 2]" 55 ?r 5]
    a b rt
  show ?thesis by auto
qed

section \<open>No lower bound on the days\<close>

text \<open>
  Claim C9. Neither \<open>add_room\<close> nor \<open>modify_days\<close> tests the number of days: for every
  value \<open>d\<close> of a \<open>long\<close>, zero and negative ones included, booking a vacant room in
  1..100 and changing the days of a booked room (with a room number in a band) succeed
  and store \<open>cost = d * rate\<close>; read as integers this is the exact product whenever the
  product fits into a \<open>long\<close>, so it is zero for 0 days and negative for negative days.
\<close>

theorem days_not_bounded_below:
  "(1 \<le> sint r_no \<and> sint r_no \<le> 100 \<and> rooms r_no = None \<longrightarrow>
      (\<exists>r rt. add_room r_no nm addr ph d rooms = (Inr r, rooms(r_no \<mapsto> r)) \<and>
         spec_rate r_no = Some rt \<and> days r = d \<and> cost r = d * rt \<and>
         (- (2 ^ 63) \<le> sint d * sint rt \<and> sint d * sint rt < 2 ^ 63 \<longrightarrow>
            sint (cost r) = sint d * sint rt))) \<and>
   (rooms r_no = Some it \<and> spec_rate (room_no it) = Some rt' \<longrightarrow>
      (\<exists>it'. modify_days r_no d rooms = (Inr (), rooms(r_no \<mapsto> it')) \<and>
         days it' = d \<and> cost it' = d * rt' \<and>
         (- (2 ^ 63) \<le> sint d * sint rt' \<and> sint d * sint rt' < 2 ^ 63 \<longrightarrow>
            sint (cost it') = sint d * sint rt')))"
proof (intro conjI impI)
  assume a: "1 \<le> sint r_no \<and> sint r_no \<le> 100 \<and> rooms r_no = None"
  then obtain rt where rt: "spec_rate r_no = Some rt" "cost (booked r_no nm addr ph d) = d * rt"
    using booked_rate [of r_no nm addr ph d] by auto
  from a have "add_room r_no nm addr ph d rooms =
      (Inr (booked r_no nm addr ph d), rooms(r_no \<mapsto> booked r_no nm addr ph d))"
    by (simp add: add_room_vacant)
  moreover have "days (booked r_no nm addr ph d) = d" by (simp add: booked_def)
  ultimately show "\<exists>r rt. add_room r_no nm addr ph d rooms = (Inr r, rooms(r_no \<mapsto> r)) \<and>
         spec_rate r_no = Some rt \<and> days r = d \<and> cost r = d * rt \<and>
         (- (2 ^ 63) \<le> sint d * sint rt \<and> sint d * sint rt < 2 ^ 63 \<longrightarrow>
            sint (cost r) = sint d * sint rt)"
    using rt by (auto simp: sint_times_fits)
next
  assume a: "rooms r_no = Some it \<and> spec_rate (room_no it) = Some rt'"
  with modify_days_rate [of rooms r_no it rt' d]
  show "\<exists>it'. modify_days r_no d rooms = (Inr (), rooms(r_no \<mapsto> it')) \<and>
         days it' = d \<and> cost it' = d * rt' \<and>
         (- (2 ^ 63) \<le> sint d * sint rt' \<and> sint d * sint rt' < 2 ^ 63 \<longrightarrow>
            sint (cost it') = sint d * sint rt')"
    by (auto simp: sint_times_fits)
qed

text \<open>Room 1 for -3 days costs -30000, for 0 days 0; room 60 changed to -2 days costs
  -25000.\<close>

theorem days_not_bounded_below_witness:
  "(\<exists>r. add_room 1 ''A'' ''B'' ''C'' (- 3) Map.empty = (Inr r, [1 \<mapsto> r]) \<and>
        days r = - 3 \<and> sint (cost r) = - 30000) \<and>
   (\<exists>r. add_room 1 ''A'' ''B'' ''C'' 0 Map.empty = (Inr r, [1 \<mapsto> r]) \<and>
        days r = 0 \<and> sint (cost r) = 0) \<and>
   (\<exists>it'. modify_days 60 (- 2) [60 \<mapsto> RoomData_default\<lparr>room_no := 60\<rparr>] =
            (Inr (), [60 \<mapsto> it']) \<and> days it' = - 2 \<and> sint (cost it') = - 25000)"
proof -
  have r1: "spec_rate 1 = Some 10000" and r60: "spec_rate 60 = Some 12500"
    by (simp_all add: spec_rate_def)
  from days_not_bounded_below [of 1 Map.empty "''A''" "''B''" "''C''" "- 3"] r1
  have "\<exists>r. add_room 1 ''A'' ''B'' ''C'' (- 3) Map.empty = (Inr r, [1 \<mapsto> r]) \<and>
        days r = - 3 \<and> sint (cost r) = - 30000"
    by auto
  moreover from days_not_bounded_below [of 1 Map.empty "''A''" "''B''" "''C''" 0] r1
  have "\<exists>r. add_room 1 ''A'' ''B'' ''C'' 0 Map.empty = (Inr r, [1 \<mapsto> r]) \<and>
        days r = 0 \<and> sint (cost r) = 0"
    by auto
  moreover from days_not_bounded_below
    [of 60 "[60 \<mapsto> RoomData_default\<lparr>room_no := 60\<rparr>]" "''A''" "''B''" "''C''"
      "- 2" "RoomData_default\<lparr>room_no := 60\<rparr>" 12500] r60
  have "\<exists>it'. modify_days 60 (- 2) [60 \<mapsto> RoomData_default\<lparr>room_no := 60\<rparr>] =
            (Inr (), [60 \<mapsto> it']) \<and> days it' = - 2 \<and> sint (cost it') = - 25000"
    by (auto simp: RoomData_default_def)
  ultimately show ?thesis by blast
qed

section \<open>Refused bookings\<close>

text \<open>
  Claim C6. \<open>add_room\<close> refuses a room number outside 1..100 with the "does not exist"
  line (\<open>RoomInvalid\<close>) and a booked room in 1..100 with the "already booked" line
  (\<open>RoomOccupied\<close>); in both cases \<open>rooms_map\<close> is returned as it was, so that the
  record of the booked room is the one stored before.
\<close>

theorem add_room_refusals_keep_store:
  "(sint r_no < 1 \<or> 100 < sint r_no \<longrightarrow>
      add_room r_no nm addr ph d rooms = (Inl RoomInvalid, rooms)) \<and>
   (1 \<le> sint r_no \<and> sint r_no \<le> 100 \<and> rooms r_no = Some r \<longrightarrow>
      add_room r_no nm addr ph d rooms = (Inl RoomOccupied, rooms) \<and>
      snd (add_room r_no nm addr ph d rooms) r_no = Some r)"
  by (auto simp: add_room_invalid add_room_booked)

theorem add_room_refusals_keep_store_witness:
  "add_room 0 ''A'' ''B'' ''C'' 2 Map.empty = (Inl RoomInvalid, Map.empty) \<and>
   add_room 101 ''A'' ''B'' ''C'' 2 Map.empty = (Inl RoomInvalid, Map.empty) \<and>
   add_room (- 4) ''A'' ''B'' ''C'' 2 Map.empty = (Inl RoomInvalid, Map.empty) \<and>
   add_room 7 ''A'' ''B'' ''C'' 2 [7 \<mapsto> RoomData_default\<lparr>room_no := 7, name := ''Z''\<rparr>] =
     (Inl RoomOccupied, [7 \<mapsto> RoomData_default\<lparr>room_no := 7, name := ''Z''\<rparr>])"
  using add_room_refusals_keep_store [of 0 "''A''" "''B''" "''C''" 2 Map.empty]
    add_room_refusals_keep_store [of 101 "''A''" "''B''" "''C''" 2 Map.empty]
    add_room_refusals_keep_store [of "- 4" "''A''" "''B''" "''C''" 2 Map.empty]
    add_room_refusals_keep_store
      [of 7 "''A''" "''B''" "''C''" 2 "[7 \<mapsto> RoomData_default\<lparr>room_no := 7, name := ''Z''\<rparr>]"
       "RoomData_default\<lparr>room_no := 7, name := ''Z''\<rparr>"]
  by simp

section \<open>Check-out\<close>

text \<open>
  Claim C7. For a booked room \<open>delete_customer_record\<close> prints the bill
  \<open>cost + food_bill\<close> of the record; it erases the record when the character read is
  \<open>y\<close> or \<open>Y\<close>, and with any other character it returns \<open>rooms_map\<close> as it was. For
  a room that is not booked nothing is changed either.
\<close>

theorem checkout_needs_confirmation:
  "(rooms r_no = Some room \<and> (confirm_char = CHR ''y'' \<or> confirm_char = CHR ''Y'') \<longrightarrow>
      delete_customer_record r_no confirm_char rooms =
        (Inr (cost room + food_bill room, CheckedOut), rooms(r_no := None))) \<and>
   (rooms r_no = Some room \<and> confirm_char \<noteq> CHR ''y'' \<and> confirm_char \<noteq> CHR ''Y'' \<longrightarrow>
      delete_customer_record r_no confirm_char rooms =
        (Inr (cost room + food_bill room, Cancelled), rooms)) \<and>
   (rooms r_no = None \<longrightarrow>
      delete_customer_record r_no confirm_char rooms = (Inl NotFound, rooms))"
  by (simp add: delete_customer_record_def Let_def)

text \<open>The bill 30000 + 2200 = 32200, confirmed with \<open>y\<close> and declined with \<open>n\<close>.\<close>

theorem checkout_needs_confirmation_witness:
  "delete_customer_record 1 CHR ''y''
      [1 \<mapsto> RoomData_default\<lparr>room_no := 1, cost := 30000, food_bill := 2200\<rparr>] =
     (Inr (32200, CheckedOut), Map.empty) \<and>
   delete_customer_record 1 CHR ''n''
      [1 \<mapsto> RoomData_default\<lparr>room_no := 1, cost := 30000, food_bill := 2200\<rparr>] =
     (Inr (32200, Cancelled),
      [1 \<mapsto> RoomData_default\<lparr>room_no := 1, cost := 30000, food_bill := 2200\<rparr>]) \<and>
   delete_customer_record 2 CHR ''y''
      [1 \<mapsto> RoomData_default\<lparr>room_no := 1, cost := 30000, food_bill := 2200\<rparr>] =
     (Inl NotFound, [1 \<mapsto> RoomData_default\<lparr>room_no := 1, cost := 30000, food_bill := 2200\<rparr>])"
  using
    checkout_needs_confirmation
      [of "[1 \<mapsto> RoomData_default\<lparr>room_no := 1, cost := 30000, food_bill := 2200\<rparr>]" 1
        "RoomData_default\<lparr>room_no := 1, cost := 30000, food_bill := 2200\<rparr>" "CHR ''y''"]
    checkout_needs_confirmation
      [of "[1 \<mapsto> RoomData_default\<lparr>room_no := 1, cost := 30000, food_bill := 2200\<rparr>]" 1
        "RoomData_default\<lparr>room_no := 1, cost := 30000, food_bill := 2200\<rparr>" "CHR ''n''"]
    checkout_needs_confirmation
      [of "[1 \<mapsto> RoomData_default\<lparr>room_no := 1, cost := 30000, food_bill := 2200\<rparr>]" 2
        "RoomData_default" "CHR ''y''"]
  by (simp add: RoomData_default_def)

section \<open>Editing the text fields\<close>

text \<open>
  Claim C8. On a booked room \<open>modify_name\<close>, \<open>modify_address\<close> and \<open>modify_phone\<close>
  replace the one field by the line read. The record keeps its room number, days, room
  type, cost and food bill, and the record of every other room is untouched.
\<close>

theorem modify_text_fields_frame:
  "rooms r_no = Some it \<longrightarrow>
     modify_name r_no line rooms = (Inr (), rooms(r_no \<mapsto> it\<lparr>name := line\<rparr>)) \<and>
     modify_address r_no line rooms = (Inr (), rooms(r_no \<mapsto> it\<lparr>address := line\<rparr>)) \<and>
     modify_phone r_no line rooms = (Inr (), rooms(r_no \<mapsto> it\<lparr>phone := line\<rparr>)) \<and>
     (\<forall>f \<in> {modify_name, modify_address, modify_phone}.
        (\<exists>it'. snd (f r_no line rooms) r_no = Some it' \<and>
           room_no it' = room_no it \<and> days it' = days it \<and> rtype it' = rtype it \<and>
           cost it' = cost it \<and> food_bill it' = food_bill it) \<and>
        (\<forall>k. k \<noteq> r_no \<longrightarrow> snd (f r_no line rooms) k = rooms k))"
  by (simp add: modify_name_def modify_address_def modify_phone_def)

theorem modify_text_fields_frame_witness:
  "modify_name 1 ''New'' [1 \<mapsto> RoomData_default\<lparr>room_no := 1, cost := 30000\<rparr>,
                          2 \<mapsto> RoomData_default\<lparr>room_no := 2\<rparr>] =
     (Inr (), [1 \<mapsto> RoomData_default\<lparr>room_no := 1, name := ''New'', cost := 30000\<rparr>,
               2 \<mapsto> RoomData_default\<lparr>room_no := 2\<rparr>]) \<and>
   snd (modify_phone 1 ''New'' [1 \<mapsto> RoomData_default\<lparr>room_no := 1, cost := 30000\<rparr>,
                          2 \<mapsto> RoomData_default\<lparr>room_no := 2\<rparr>]) 2 =
     Some (RoomData_default\<lparr>room_no := 2\<rparr>)"
  using modify_text_fields_frame
    [of "[1 \<mapsto> RoomData_default\<lparr>room_no := 1, cost := 30000\<rparr>,
          2 \<mapsto> RoomData_default\<lparr>room_no := 2\<rparr>]" 1
       "RoomData_default\<lparr>room_no := 1, cost := 30000\<rparr>" "''New''"]
  by (simp add: RoomData_default_def fun_upd_twist)

section \<open>Restaurant orders\<close>

text \<open>
  Claim C10. A meal choice other than 1, 2 and 3 takes the default branch of the switch
  in \<open>order_food\<close>: \<open>rooms_map\<close> is returned as it was, whether or not the room is
  booked and whatever number of people was read; for a booked room the "Invalid choice
  for meal." line is printed.
\<close>

theorem invalid_meal_choice_changes_nothing:
  "meal_choice \<noteq> 1 \<and> meal_choice \<noteq> 2 \<and> meal_choice \<noteq> 3 \<longrightarrow>
     snd (order_food meal_choice r_no num_people rooms) = rooms \<and>
     (rooms r_no = Some it \<longrightarrow>
        order_food meal_choice r_no num_people rooms = (Inl InvalidMealChoice, rooms))"
  by (simp add: order_food_def split: option.splits)

theorem invalid_meal_choice_changes_nothing_witness:
  "order_food 4 1 2 [1 \<mapsto> RoomData_default\<lparr>room_no := 1, food_bill := 1000\<rparr>] =
     (Inl InvalidMealChoice, [1 \<mapsto> RoomData_default\<lparr>room_no := 1, food_bill := 1000\<rparr>])"
  using invalid_meal_choice_changes_nothing
    [of 4 1 2 "[1 \<mapsto> RoomData_default\<lparr>room_no := 1, food_bill := 1000\<rparr>]"
      "RoomData_default\<lparr>room_no := 1, food_bill := 1000\<rparr>"]
  by simp

section \<open>The food bill\<close>

lemma order_food_menu:
  "rooms r_no = Some it \<Longrightarrow>
   order_food (menu_choice m) r_no n rooms =
     (Inr (), rooms(r_no \<mapsto> it\<lparr>food_bill := food_bill it + spec_meal_rate m * scast n\<rparr>))"
  by (cases m)
    (simp_all add: order_food_def calculateBreakfastCost_def calculateLunchCost_def
      calculateDinnerCost_def)

lemma order_meals_sum:
  "rooms r_no = Some it \<Longrightarrow>
   order_meals r_no orders rooms =
     rooms(r_no \<mapsto> it\<lparr>food_bill :=
        food_bill it + sum_list (map (\<lambda>(m, n). spec_meal_rate m * scast n) orders)\<rparr>)"
proof (induction orders arbitrary: rooms it)
  case Nil
  then show ?case by (simp add: fun_upd_idem)
next
  case (Cons o1 orders)
  obtain m n where o1: "o1 = (m, n)" by (cases o1)
  let ?it = "it\<lparr>food_bill := food_bill it + spec_meal_rate m * scast n\<rparr>"
  let ?rooms = "rooms(r_no \<mapsto> ?it)"
  have "?rooms r_no = Some ?it" by simp
  then have "order_meals r_no orders ?rooms =
      ?rooms(r_no \<mapsto> ?it\<lparr>food_bill :=
        food_bill ?it + sum_list (map (\<lambda>(m, n). spec_meal_rate m * scast n) orders)\<rparr>)"
    by (rule Cons.IH)
  moreover have "order_meals r_no (o1 # orders) rooms = order_meals r_no orders ?rooms"
    using Cons.prems by (simp add: o1 order_food_menu)
  ultimately show ?case by (simp add: o1 add.assoc)
qed

lemma perform_food_bill:
  assumes "rooms k = Some it" "perform a rooms k = Some it'"
  shows "food_bill it' = food_bill it \<or>
     (\<exists>m n. a = OrderFood (menu_choice m) k n \<and>
         food_bill it' = food_bill it + spec_meal_rate m * scast n)"
proof (cases a)
  case (Book r_no nm addr ph d)
  from add_room_cases [of r_no nm addr ph d rooms] assms show ?thesis
    unfolding Book by (auto split: if_splits)
next
  case (ModifyName r_no line)
  with assms show ?thesis by (auto simp: modify_name_def split: option.splits if_splits)
next
  case (ModifyAddress r_no line)
  with assms show ?thesis by (auto simp: modify_address_def split: option.splits if_splits)
next
  case (ModifyPhone r_no line)
  with assms show ?thesis by (auto simp: modify_phone_def split: option.splits if_splits)
next
  case (ModifyDays r_no d)
  with assms show ?thesis
    by (auto simp: modify_days_def Let_def split: option.splits if_splits)
next
  case (CheckOut r_no c)
  with assms show ?thesis
    by (auto simp: delete_customer_record_def Let_def split: option.splits if_splits)
next
  case (OrderFood mc r_no n)
  show ?thesis
  proof (cases "r_no = k \<and> (mc = 1 \<or> mc = 2 \<or> mc = 3)")
    case False
    with assms OrderFood show ?thesis
      by (auto simp: order_food_def split: option.splits if_splits)
  next
    case True
    then obtain m where m: "mc = menu_choice m"
      by (metis menu_choice.simps)
    with True assms OrderFood order_food_menu [of rooms k it m n] show ?thesis
      by auto
  qed
qed

lemma sint_meal_charge:
  "sint (spec_meal_rate m * (scast (n :: cint) :: long)) = sint (spec_meal_rate m) * sint n"
proof -
  have n: "sint (scast n :: long) = sint n" by (simp add: sint_up_scast is_up)
  have lo: "- (2 ^ 31) \<le> sint n" and hi: "sint n < 2 ^ 31"
    using sint_ge [of n] sint_lt [of n] by simp_all
  have "- (2 ^ 63) \<le> sint (spec_meal_rate m) * sint n \<and>
      sint (spec_meal_rate m) * sint n < 2 ^ 63"
    using lo hi by (cases m) simp_all
  then show ?thesis using sint_times_fits [of "spec_meal_rate m" "scast n"] n by simp
qed

lemma food_bill_grows:
  fixes fb :: long
  assumes "0 \<le> sint (n :: cint)" "sint fb + sint (spec_meal_rate m) * sint n < 2 ^ 63"
  shows "sint (fb + spec_meal_rate m * scast n) = sint fb + sint (spec_meal_rate m) * sint n"
    and "sint fb \<le> sint (fb + spec_meal_rate m * scast n)"
proof -
  have nonneg: "0 \<le> sint (spec_meal_rate m) * sint n"
    using assms(1) by (cases m) simp_all
  have "- (2 ^ 63) \<le> sint fb" using sint_ge [of fb] by simp
  with nonneg have lo: "- (2 ^ 63) \<le> sint fb + sint (spec_meal_rate m * (scast n :: long))"
    by (simp add: sint_meal_charge)
  from assms(2) have hi: "sint fb + sint (spec_meal_rate m * (scast n :: long)) < 2 ^ 63"
    by (simp add: sint_meal_charge)
  from sint_plus_fits [OF lo hi]
  show "sint (fb + spec_meal_rate m * scast n) = sint fb + sint (spec_meal_rate m) * sint n"
    by (simp add: sint_meal_charge)
  with nonneg show "sint fb \<le> sint (fb + spec_meal_rate m * scast n)" by simp
qed

text \<open>
  Claim C5, as stated, fails in its last part: \<open>order_food\<close> does not test the number of
  people, and a breakfast for -1 people takes 500 off the bill of a room just booked,
  which goes from 0 to -500 with the record still in place.
\<close>

theorem food_bill_decreases_counterexample:
  "map_option (\<lambda>r. sint (food_bill r))
      (perform (Book 1 ''A'' ''B'' ''C'' 3) Map.empty 1) = Some 0 \<and>
   map_option (\<lambda>r. sint (food_bill r))
      (perform (OrderFood 1 1 (- 1)) (perform (Book 1 ''A'' ''B'' ''C'' 3) Map.empty) 1) =
     Some (- 500)"
  by (simp add: add_room_def check_room_status_def RoomData_default_def Let_def
      word_sless_alt word_sle_eq order_food_def calculateBreakfastCost_def)

text \<open>
  Claim C5, amended. After a sequence of meal orders for a booked room the food bill is
  the bill before the orders plus the sum of \<open>meal_rate * people\<close> over the orders, in
  the \<open>long\<close> arithmetic of the program; right after \<open>add_room\<close> the bill before is 0,
  so the bill is the sum. A menu action that leaves the record in place either keeps its
  food bill or is a meal order for that room and adds \<open>meal_rate * people\<close>. An order
  for a number of people that is not negative never lowers the bill, as long as the
  exact total stays below \<open>2 ^ 63\<close>.
\<close>

theorem food_bill_is_sum_of_orders:
  "(rooms r_no = Some it \<longrightarrow>
      map_option food_bill (order_meals r_no orders rooms r_no) =
        Some (food_bill it + sum_list (map (\<lambda>(m, n). spec_meal_rate m * scast n) orders))) \<and>
   (fst (add_room r_no nm addr ph d rooms) = Inr r \<longrightarrow>
      map_option food_bill
          (order_meals r_no orders (snd (add_room r_no nm addr ph d rooms)) r_no) =
        Some (sum_list (map (\<lambda>(m, n). spec_meal_rate m * scast n) orders))) \<and>
   (rooms r_no = Some it \<and> perform a rooms r_no = Some it' \<longrightarrow>
      food_bill it' = food_bill it \<or>
      (\<exists>m n. a = OrderFood (menu_choice m) r_no n \<and>
         food_bill it' = food_bill it + spec_meal_rate m * scast n)) \<and>
   (0 \<le> sint (n :: cint) \<and> sint (fb :: long) + sint (spec_meal_rate m) * sint n < 2 ^ 63 \<longrightarrow>
      sint (fb + spec_meal_rate m * scast n) = sint fb + sint (spec_meal_rate m) * sint n \<and>
      sint fb \<le> sint (fb + spec_meal_rate m * scast n))"
proof (intro conjI impI)
  assume "rooms r_no = Some it"
  then show "map_option food_bill (order_meals r_no orders rooms r_no) =
        Some (food_bill it + sum_list (map (\<lambda>(m, n). spec_meal_rate m * scast n) orders))"
    by (simp add: order_meals_sum)
next
  assume a: "fst (add_room r_no nm addr ph d rooms) = Inr r"
  let ?b = "booked r_no nm addr ph d"
  from a add_room_cases [of r_no nm addr ph d rooms]
  have "snd (add_room r_no nm addr ph d rooms) = rooms(r_no \<mapsto> ?b)" by auto
  moreover have "(rooms(r_no \<mapsto> ?b)) r_no = Some ?b" by simp
  moreover have "food_bill ?b = 0" by (simp add: booked_def)
  ultimately show "map_option food_bill
        (order_meals r_no orders (snd (add_room r_no nm addr ph d rooms)) r_no) =
        Some (sum_list (map (\<lambda>(m, n). spec_meal_rate m * scast n) orders))"
    using order_meals_sum [of "rooms(r_no \<mapsto> ?b)" r_no ?b orders] by simp
next
  assume "rooms r_no = Some it \<and> perform a rooms r_no = Some it'"
  then show "food_bill it' = food_bill it \<or>
      (\<exists>m n. a = OrderFood (menu_choice m) r_no n \<and>
         food_bill it' = food_bill it + spec_meal_rate m * scast n)"
    using perform_food_bill [of rooms r_no it a it'] by simp
next
  assume a: "0 \<le> sint n \<and> sint fb + sint (spec_meal_rate m) * sint n < 2 ^ 63"
  then show "sint (fb + spec_meal_rate m * scast n) = sint fb + sint (spec_meal_rate m) * sint n"
    using food_bill_grows(1) [of n fb m] by blast
  from a show "sint fb \<le> sint (fb + spec_meal_rate m * scast n)"
    using food_bill_grows(2) [of n fb m] by blast
qed

text \<open>
  Room 1 booked, then breakfast for 2 and dinner for 1: the bill is 2200. A bill of 500
  and lunch for 3: 3500. Changing the days of that room keeps the bill of 500. A bill of
  1000 and dinner for 2: 3400, not below 1000.
\<close>

theorem food_bill_is_sum_of_orders_witness:
  "map_option food_bill
      (order_meals 1 [(Breakfast, 2), (Dinner, 1)]
         (snd (add_room 1 ''A'' ''B'' ''C'' 3 Map.empty)) 1) = Some 2200 \<and>
   map_option food_bill
      (order_meals 1 [(Lunch, 3)] [1 \<mapsto> RoomData_default\<lparr>room_no := 1, food_bill := 500\<rparr>] 1) =
     Some 3500 \<and>
   map_option food_bill
      (perform (ModifyDays 1 9) [1 \<mapsto> RoomData_default\<lparr>room_no := 1, food_bill := 500\<rparr>] 1) =
     Some 500 \<and>
   sint (1000 + spec_meal_rate Dinner * scast (2 :: cint)) = 3400 \<and>
   sint (1000 :: long) \<le> sint (1000 + spec_meal_rate Dinner * scast (2 :: cint))"
proof -
  let ?r = "\<lparr>room_no = 1, name = ''A'', address = ''B'', phone = ''C'', days = 3,
        cost = 30000, rtype = ''Deluxe'', food_bill = 0\<rparr>"
  let ?s = "RoomData_default\<lparr>room_no := 1, food_bill := 500\<rparr>"
  let ?s' = "RoomData_default\<lparr>room_no := 1, days := 9, cost := 90000, food_bill := 500\<rparr>"
  have a: "fst (add_room 1 ''A'' ''B'' ''C'' 3 Map.empty) = Inr ?r"
    by (simp add: add_room_def check_room_status_def RoomData_default_def Let_def
      word_sless_alt word_sle_eq)
  have b: "perform (ModifyDays 1 9) [1 \<mapsto> ?s] 1 = Some ?s'"
    by (simp add: modify_days_def RoomData_default_def Let_def word_sle_eq)
  have c: "sint (2 :: cint) = 2" "sint (1000 :: long) = 1000" by simp_all
  from food_bill_is_sum_of_orders [of "[1 \<mapsto> ?s]" 1 ?s "[(Lunch, 3)]" "''A''" "''B''" "''C''" 3 ?r
      "ModifyDays 1 9" ?s' 2 1000 Dinner]
  have "map_option food_bill (order_meals 1 [(Lunch, 3)] [1 \<mapsto> ?s] 1) = Some 3500"
    by (simp add: RoomData_default_def)
  moreover
  from food_bill_is_sum_of_orders [of Map.empty 1 ?s "[(Breakfast, 2), (Dinner, 1)]" "''A''" "''B''" "''C''" 3 ?r
      "ModifyDays 1 9" ?s' 2 1000 Dinner] a
  have "map_option food_bill
      (order_meals 1 [(Breakfast, 2), (Dinner, 1)]
         (snd (add_room 1 ''A'' ''B'' ''C'' 3 Map.empty)) 1) = Some 2200"
    by simp
  moreover
  from food_bill_is_sum_of_orders [of "[1 \<mapsto> ?s]" 1 ?s "[(Lunch, 3)]" "''A''" "''B''" "''C''" 3 ?r
      "ModifyDays 1 9" ?s' 2 1000 Dinner] b
  have "food_bill ?s' = food_bill ?s"
    by simp
  with b have "map_option food_bill (perform (ModifyDays 1 9) [1 \<mapsto> ?s] 1) = Some 500"
    by (simp add: RoomData_default_def)
  moreover
  from food_bill_is_sum_of_orders [of "[1 \<mapsto> ?s]" 1 ?s "[(Lunch, 3)]" "''A''" "''B''" "''C''" 3 ?r
      "ModifyDays 1 9" ?s' 2 1000 Dinner] c
  have "sint (1000 + spec_meal_rate Dinner * scast (2 :: cint)) = 3400 \<and>
     sint (1000 :: long) \<le> sint (1000 + spec_meal_rate Dinner * scast (2 :: cint))"
    by simp
  ultimately show ?thesis by blast
qed

section \<open>Starting without a file\<close>

text \<open>
  When \<open>Record.DAT\<close> cannot be opened, \<open>load_data\<close> returns at once (lines 85-88) and
  the map of the constructor stays empty. This branch reads no byte into a \<open>RoomData\<close>
  object, so the statement does not depend on the parameters \<open>sz\<close> and \<open>dec\<close>.
\<close>

lemma missing_file_gives_empty_map: "HotelManager sz dec None = Map.empty"
  by (simp add: HotelManager_def load_data_def)

section \<open>Saving and loading again\<close>

lemma ran_upd_subset: "ran (m(k \<mapsto> v)) \<subseteq> insert v (ran m)"
  by (auto simp: ran_def)

lemma load_loop_ran:
  "ran (load_loop sz dec fin rooms) \<subseteq> ran rooms \<union> dec ` {b. length b = sz}"
proof (induction sz dec fin rooms rule: load_loop.induct)
  case (1 sz dec fin rooms)
  show ?case
  proof (cases "sz = 0 \<or> length fin < sz")
    case True
    then show ?thesis by (subst load_loop.simps) auto
  next
    case False
    let ?t = "dec (take sz fin)"
    from False have len: "length (take sz fin) = sz" by simp
    from False have "load_loop sz dec fin rooms =
        load_loop sz dec (drop sz fin) (rooms(room_no ?t \<mapsto> ?t))"
      by (subst load_loop.simps) (simp add: Let_def)
    moreover from 1 [OF False refl]
    have "ran (load_loop sz dec (drop sz fin) (rooms(room_no ?t \<mapsto> ?t)))
        \<subseteq> ran (rooms(room_no ?t \<mapsto> ?t)) \<union> dec ` {b. length b = sz}" .
    moreover have "ran (rooms(room_no ?t \<mapsto> ?t)) \<subseteq> insert ?t (ran rooms)"
      by (rule ran_upd_subset)
    moreover from len have "?t \<in> dec ` {b. length b = sz}" by blast
    ultimately show ?thesis by auto
  qed
qed

lemma finite_blocks: "finite (dec ` {b :: byte list. length b = sz})"
proof -
  have "finite {b :: byte list. set b \<subseteq> UNIV \<and> length b = sz}"
    by (rule finite_lists_length_eq) simp
  then show ?thesis by simp
qed

lemma guest_eq:
  "snd (add_room 1 (replicate n CHR ''a'') [] [] 1 Map.empty) =
     [1 \<mapsto> \<lparr>room_no = 1, name = replicate n CHR ''a'', address = [], phone = [],
      days = 1, cost = 10000, rtype = ''Deluxe'', food_bill = 0\<rparr>]"
  by (simp add: add_room_def check_room_status_def RoomData_default_def Let_def
      word_sless_alt word_sle_eq)

lemma loadable_guests_finite:
  "finite {n. \<exists>fl. HotelManager sz dec fl =
      snd (add_room 1 (replicate n CHR ''a'') [] [] 1 Map.empty)}"
proof -
  let ?g = "\<lambda>n. \<lparr>room_no = 1 :: cint, name = replicate n CHR ''a'', address = [], phone = [],
      days = 1 :: long, cost = 10000 :: long, rtype = ''Deluxe'', food_bill = 0 :: long\<rparr>"
  let ?F = "dec ` {b. length b = sz}"
  have "inj ?g"
  proof (rule injI)
    fix x y assume "?g x = ?g y"
    then have "replicate x CHR ''a'' = replicate y CHR ''a''" by simp
    then have "length (replicate x CHR ''a'') = length (replicate y CHR ''a'')" by simp
    then show "x = y" by simp
  qed
  with finite_blocks [of dec sz] have fin: "finite (?g -` ?F)" by (rule finite_vimageI)
  have "{n. \<exists>fl. HotelManager sz dec fl =
      snd (add_room 1 (replicate n CHR ''a'') [] [] 1 Map.empty)} \<subseteq> ?g -` ?F"
  proof
    fix n
    assume "n \<in> {n. \<exists>fl. HotelManager sz dec fl =
      snd (add_room 1 (replicate n CHR ''a'') [] [] 1 Map.empty)}"
    then obtain fl where eq: "HotelManager sz dec fl = [1 \<mapsto> ?g n]"
      by (auto simp: guest_eq)
    have "ran (HotelManager sz dec fl) \<subseteq> ?F"
      using load_loop_ran [of sz dec _ Map.empty]
      by (cases fl) (auto simp: HotelManager_def load_data_def)
    with eq show "n \<in> ?g -` ?F" by auto
  qed
  then show ?thesis using fin by (rule finite_subset)
qed

text \<open>
  Claim C1 does not hold of the program. \<open>save_data\<close> writes a fixed number of bytes
  for each record, whatever the length of its name, and \<open>load_data\<close> makes one record
  of each such block. So whatever the size \<open>sz\<close> of the object and whatever the reading
  \<open>dec\<close> of its bytes are, among the bookings of room 1 for one day whose name is
  \<open>n\<close> times the letter a, only finitely many \<open>n\<close> give a map that is loaded back
  from what was saved (however the bytes \<open>enc\<close> of the object were written): for all
  other names the map loaded differs from the map saved.
\<close>

theorem fixed_size_dump_loses_names:
  "finite {n. \<exists>enc order writable fl.
     HotelManager sz dec
       (save_data enc order writable
          (snd (add_room 1 (replicate n CHR ''a'') [] [] 1 Map.empty)) fl) =
     snd (add_room 1 (replicate n CHR ''a'') [] [] 1 Map.empty)}"
proof (rule finite_subset [OF _ loadable_guests_finite [of sz dec]])
  show "{n. \<exists>enc order writable fl.
     HotelManager sz dec
       (save_data enc order writable
          (snd (add_room 1 (replicate n CHR ''a'') [] [] 1 Map.empty)) fl) =
     snd (add_room 1 (replicate n CHR ''a'') [] [] 1 Map.empty)}
    \<subseteq> {n. \<exists>fl. HotelManager sz dec fl =
      snd (add_room 1 (replicate n CHR ''a'') [] [] 1 Map.empty)}"
    by blast
qed

end
